theory Spec2Isabelle
  imports Main "HOL-Library.Word"
begin

section \<open>Strings, bytes and formatting\<close>

text \<open>
  A Go string is a sequence of bytes, and so is a \<^typ>\<open>string\<close> here. Digests are
  slices of bytes, modelled as lists of 8-bit words. The formatting verbs the program
  uses (\<^verbatim>\<open>%d\<close>, \<^verbatim>\<open>%x\<close>, \<^verbatim>\<open>%02x\<close>) are written out.
\<close>

type_synonym byte = "8 word"

definition hexdigit :: "nat \<Rightarrow> char" where
  "hexdigit d = ''0123456789abcdef'' ! d"

definition decdigit :: "nat \<Rightarrow> char" where
  "decdigit d = ''0123456789'' ! d"

text \<open>\<^verbatim>\<open>%d\<close> of a non-negative integer: its decimal digits, most significant first.\<close>

function Sprintf_d :: "nat \<Rightarrow> string" where
  "Sprintf_d n = (if n < 10 then [decdigit n] else Sprintf_d (n div 10) @ [decdigit (n mod 10)])"
  by pat_completeness auto
termination
  by (relation "measure id") auto

text \<open>\<^verbatim>\<open>%x\<close> of a non-negative integer: its lowercase hexadecimal digits.\<close>

function Sprintf_x_nat :: "nat \<Rightarrow> string" where
  "Sprintf_x_nat n =
     (if n < 16 then [hexdigit n] else Sprintf_x_nat (n div 16) @ [hexdigit (n mod 16)])"
  by pat_completeness auto
termination
  by (relation "measure id") auto

text \<open>The flag \<^verbatim>\<open>0\<close> with width 2 pads with zeros on the left up to two characters.\<close>

definition Sprintf_02x :: "byte \<Rightarrow> string" where
  "Sprintf_02x b =
     (let s = Sprintf_x_nat (unat b) in replicate (2 - length s) (CHR ''0'') @ s)"

text \<open>\<^verbatim>\<open>%x\<close> of a byte slice: two lowercase hexadecimal digits for every byte.\<close>

definition Sprintf_x :: "byte list \<Rightarrow> string" where
  "Sprintf_x bs = concat (map (\<lambda>b. [hexdigit (unat b div 16), hexdigit (unat b mod 16)]) bs)"

text \<open>\<^verbatim>\<open>strings.Join\<close>.\<close>

fun Join :: "string list \<Rightarrow> string \<Rightarrow> string" where
  "Join [] sep = []"
| "Join [x] sep = x"
| "Join (x # y # ys) sep = x @ sep @ Join (y # ys) sep"

text \<open>
  \<^verbatim>\<open>strings.Split(s, "/")\<close> for a separator of one byte: the pieces between the
  separators, so one more piece than there are separators.
\<close>

fun Split :: "string \<Rightarrow> char \<Rightarrow> string list" where
  "Split [] sep = [[]]"
| "Split (c # cs) sep =
     (if c = sep then [] # Split cs sep
      else (c # hd (Split cs sep)) # tl (Split cs sep))"

text \<open>
  \<^verbatim>\<open>filepath.Ext\<close>: scan from the end of the path up to the last path separator; the
  extension is the suffix that starts at the first dot met, and is empty if there is none.
\<close>

fun ext_scan :: "string \<Rightarrow> string \<Rightarrow> string" where
  "ext_scan [] suffix = []"
| "ext_scan (c # before) suffix =
     (if c = CHR ''/'' then []
      else if c = CHR ''.'' then c # suffix
      else ext_scan before (c # suffix))"

definition Ext :: "string \<Rightarrow> string" where
  "Ext path = ext_scan (rev path) []"

subsection \<open>Ranging over a string\<close>

text \<open>
  \<^verbatim>\<open>for i := range h\<close> over a string does not visit every byte: it decodes UTF-8 and
  yields the byte offset at which each rune starts, advancing by one byte over an invalid
  encoding. \<open>rune_width\<close> is the number of bytes the decoder consumes at the head of a
  non-empty string.
\<close>

definition cont :: "char \<Rightarrow> bool" where
  "cont c \<longleftrightarrow> (0x80::nat) \<le> of_char c \<and> of_char c \<le> (0xBF::nat)"

fun rune_width :: "string \<Rightarrow> nat" where
  "rune_width [] = 1"
| "rune_width (c0 # rest) =
     (let b0 = of_char c0 :: nat in
      if 0xC0 \<le> b0 \<and> b0 < 0xE0 then
        (case rest of
           c1 # _ \<Rightarrow>
             if cont c1 \<and> 0x7F < (b0 mod 32) * 64 + (of_char c1 mod 64) then 2 else 1
         | _ \<Rightarrow> 1)
      else if 0xE0 \<le> b0 \<and> b0 < 0xF0 then
        (case rest of
           c1 # c2 # _ \<Rightarrow>
             (let r = (b0 mod 16) * 4096 + (of_char c1 mod 64) * 64 + (of_char c2 mod 64) in
              if cont c1 \<and> cont c2 \<and> 0x7FF < r \<and> \<not> (0xD800 \<le> r \<and> r \<le> 0xDFFF)
              then 3 else 1)
         | _ \<Rightarrow> 1)
      else if 0xF0 \<le> b0 \<and> b0 < 0xF8 then
        (case rest of
           c1 # c2 # c3 # _ \<Rightarrow>
             (let r = (b0 mod 8) * 262144 + (of_char c1 mod 64) * 4096
                      + (of_char c2 mod 64) * 64 + (of_char c3 mod 64) in
              if cont c1 \<and> cont c2 \<and> cont c3 \<and> 0xFFFF < r \<and> r \<le> 0x10FFFF
              then 4 else 1)
         | _ \<Rightarrow> 1)
      else 1)"

function rune_offsets :: "nat \<Rightarrow> string \<Rightarrow> nat list" where
  "rune_offsets k s =
     (if s = [] then [] else k # rune_offsets (k + rune_width s) (drop (rune_width s) s))"
  by pat_completeness auto
termination
proof (relation "measure (\<lambda>(k, s). length s)")
  show "wf (measure (\<lambda>(k, s). length s))" by simp
next
  fix k :: nat and s :: string
  assume "s \<noteq> []"
  then have "0 < length s" by simp
  moreover have "0 < rune_width s"
    by (cases s) (auto simp: Let_def split: list.splits)
  ultimately show "((k + rune_width s, drop (rune_width s) s), (k, s)) \<in> measure (\<lambda>(k, s). length s)"
    by simp
qed

declare rune_offsets.simps [simp del]
declare Sprintf_d.simps [simp del]
declare Sprintf_x_nat.simps [simp del]

section \<open>Hash paths (views)\<close>

text \<open>
  \<^verbatim>\<open>hashToPath\<close> prints every byte of a digest as two hexadecimal digits followed by
  a slash.
\<close>

definition hashToPath :: "byte list \<Rightarrow> string" where
  "hashToPath h = fold (\<lambda>b buffer. buffer @ Sprintf_02x b @ ''/'') h []"

text \<open>
  \<^verbatim>\<open>hashStringToPath\<close> ranges over the string and, at every odd offset \<open>i\<close>, appends
  the slice \<^verbatim>\<open>h[i-1:i+1]\<close> to the parts; the parts are joined with a slash. An offset
  of the range is below the length of the string, so the slice is always in bounds.
\<close>

definition hashStringToPath :: "string \<Rightarrow> string" where
  "hashStringToPath h =
     Join (fold (\<lambda>i parts. if i mod 2 \<noteq> 0 then parts @ [take 2 (drop (i - 1) h)] else parts)
             (rune_offsets 0 h) [])
          ''/''"

definition is_hex :: "char \<Rightarrow> bool" where
  "is_hex c \<longleftrightarrow> c \<in> set ''0123456789abcdefABCDEF''"

section \<open>Results, panics and the world outside\<close>

text \<open>
  A Go \<^verbatim>\<open>error\<close> is a value: either one that a library call handed back (the HTTP
  client failing at the transport level) or one made with \<^verbatim>\<open>errors.New\<close>. A panic
  ends the call instead of returning from it.
\<close>

datatype error = Transport string | Errors_New string

datatype panic = Explicit string | SliceBoundsOutOfRange | IndexOutOfRange | NilDereference

datatype 'a outcome = Panic panic | Return 'a

type_synonym time = int

record HttpResponse =
  Status :: string
  Body :: string

text \<open>
  What the node package reaches outside the process: \<^verbatim>\<open>http.Get\<close> by URL, and
  \<^verbatim>\<open>http.Post\<close> of a multipart body that carries one form file \<^verbatim>\<open>image\<close>, given
  here by the target URL, the file name of the part and the bytes copied into it. Both
  answer with an error or a response. \<^verbatim>\<open>CreateFormFile\<close> hands back an error or none.
\<close>

record Net =
  http_Get :: "string \<Rightarrow> error + HttpResponse"
  http_Post :: "string \<Rightarrow> string \<Rightarrow> string \<Rightarrow> error + HttpResponse"
  CreateFormFile_err :: "string \<Rightarrow> string option"

text \<open>
  The state the handlers read and write on their own machine: the files by path, the
  entries of the memcache by key, and the paths at which \<^verbatim>\<open>os.OpenFile\<close> fails.
\<close>

record World =
  fs :: "string \<rightharpoonup> string"
  mc :: "string \<rightharpoonup> string"
  OpenFile_fails :: "string \<Rightarrow> bool"

text \<open>
  \<^verbatim>\<open>os.OpenFile(p, O_CREATE|O_RDWR, 0644)\<close> creates an empty file where there is none and
  leaves an existing one as it is. Writing through the handle starts at offset 0 and does
  not truncate: bytes of the old contents beyond the written ones stay. On a handle that
  failed to open every write fails, and the handlers ignore it.
\<close>

definition ReadFile_or_empty :: "World \<Rightarrow> string \<Rightarrow> string" where
  "ReadFile_or_empty w p = (case fs w p of None \<Rightarrow> [] | Some contents \<Rightarrow> contents)"

definition OpenFile_create :: "World \<Rightarrow> string \<Rightarrow> World" where
  "OpenFile_create w p =
     (if OpenFile_fails w p then w else w\<lparr>fs := (fs w)(p \<mapsto> ReadFile_or_empty w p)\<rparr>)"

definition write_opened :: "World \<Rightarrow> string \<Rightarrow> string \<Rightarrow> World" where
  "write_opened w p data =
     (if OpenFile_fails w p then w
      else w\<lparr>fs := (fs w)(p \<mapsto> data @ drop (length data) (ReadFile_or_empty w p))\<rparr>)"

definition mc_Set :: "World \<Rightarrow> string \<Rightarrow> string \<Rightarrow> World" where
  "mc_Set w key val = w\<lparr>mc := (mc w)(key \<mapsto> val)\<rparr>"

text \<open>Indexing a Go map of strings gives the empty string for a key that is not there.\<close>

definition map_index :: "(string \<rightharpoonup> string) \<Rightarrow> string \<Rightarrow> string" where
  "map_index m k = (case m k of None \<Rightarrow> [] | Some v \<Rightarrow> v)"

section \<open>Nodes (node package)\<close>

record NodeData =
  Nickname :: string
  UUID :: string
  BaseUrl :: string
  Location :: string
  Writeable :: bool
  LastSeen :: time
  LastFailed :: time

definition REPLICAS :: nat where
  "REPLICAS = 16"

text \<open>
  \<^verbatim>\<open>HashKeys\<close> makes a slice of \<open>REPLICAS\<close> empty strings and overwrites the entry at
  every index \<open>i\<close> of it with the hexadecimal SHA-1 of the UUID followed by \<open>i\<close> in
  decimal. SHA-1 is the library's; it is a parameter here.
\<close>

definition HashKeys :: "(string \<Rightarrow> byte list) \<Rightarrow> NodeData \<Rightarrow> string list" where
  "HashKeys sha1 n =
     (let keys = replicate REPLICAS [] in
      fold (\<lambda>i keys. keys[i := Sprintf_x (sha1 (UUID n @ Sprintf_d i))])
           [0 ..< length keys] keys)"

definition retrieveUrl :: "NodeData \<Rightarrow> string \<Rightarrow> string \<Rightarrow> string \<Rightarrow> string" where
  "retrieveUrl n hash sz extension =
     ''http://'' @ BaseUrl n @ ''/retrieve/'' @ hash @ ''/'' @ sz @ ''/'' @ extension @ ''/''"

definition stashUrl :: "NodeData \<Rightarrow> string" where
  "stashUrl n = ''http://'' @ BaseUrl n @ ''/stash/''"

text \<open>
  \<^verbatim>\<open>RetrieveImage\<close> has a pointer receiver: it returns its result and leaves the node
  changed. The second component is the node after the call.
\<close>

definition RetrieveImage ::
  "Net \<Rightarrow> time \<Rightarrow> NodeData \<Rightarrow> string \<Rightarrow> string \<Rightarrow> string \<Rightarrow> (error + string) \<times> NodeData" where
  "RetrieveImage net now n hash sz extension =
     (case http_Get net (retrieveUrl n hash sz extension) of
        Inl err \<Rightarrow> (Inl err, n\<lparr>LastFailed := now\<rparr>)
      | Inr resp \<Rightarrow>
          (let n' = n\<lparr>LastSeen := now\<rparr> in
           if Status resp \<noteq> ''200 OK'' then (Inl (Errors_New ''404, probably''), n')
           else (Inr (Body resp), n')))"

text \<open>
  \<^verbatim>\<open>postFile\<close> panics when the form file cannot be created and when the local file
  cannot be opened; otherwise it copies the file into the form and posts it.
\<close>

definition postFile :: "Net \<Rightarrow> World \<Rightarrow> string \<Rightarrow> string \<Rightarrow> (error + HttpResponse) outcome" where
  "postFile net w filename target_url =
     (case CreateFormFile_err net filename of
        Some msg \<Rightarrow> Panic (Explicit msg)
      | None \<Rightarrow>
          (case fs w filename of
             None \<Rightarrow> Panic (Explicit (''open '' @ filename @ '': no such file or directory''))
           | Some contents \<Rightarrow> Return (http_Post net target_url filename contents)))"

definition Stash :: "Net \<Rightarrow> World \<Rightarrow> time \<Rightarrow> NodeData \<Rightarrow> string \<Rightarrow> bool outcome \<times> NodeData" where
  "Stash net w now n filename =
     (case postFile net w filename (stashUrl n) of
        Panic p \<Rightarrow> (Panic p, n)
      | Return (Inl err) \<Rightarrow> (Return False, n\<lparr>LastFailed := now, Writeable := False\<rparr>)
      | Return (Inr resp) \<Rightarrow> (Return True, n\<lparr>LastSeen := now\<rparr>))"

section \<open>Handlers (views package)\<close>

text \<open>
  The handlers are those of the revision that passes a \<^verbatim>\<open>Context\<close>. The older
  revision of the same file has the same handlers without the memcache and without the
  tests of \<^verbatim>\<open>Success\<close> and \<^verbatim>\<open>Magick\<close>, and its \<^verbatim>\<open>AddHandler\<close> compares the number
  of nodes with \<^verbatim>\<open>Replication\<close>.

  The cluster, the site configuration and the resize worker are packages of the
  repository whose sources are not at hand; the handlers take what they call of them as
  fields. The resize worker answers a request on a channel and may write files meanwhile.
\<close>

record Cluster =
  Myself :: NodeData
  ReadOrder :: "string \<Rightarrow> NodeData list"
  Cluster_Stash :: "string \<Rightarrow> string \<Rightarrow> int \<Rightarrow> int \<Rightarrow> string list"

record SiteConfig =
  UploadDirectory :: string
  Replication :: int
  MinReplication :: int
  KeyRequired :: bool
  ValidKey :: "string \<Rightarrow> bool"

record ResizeRequest =
  req_path :: string
  req_extension :: string
  req_size :: string

record 'img ResizeResponse =
  OutputImage :: "'img option"
  Success :: bool
  Magick :: bool

record 'img Context =
  Cluster :: Cluster
  Cfg :: SiteConfig
  ResizeQueue :: "ResizeRequest \<Rightarrow> (string \<rightharpoonup> string) \<Rightarrow> 'img ResizeResponse \<times> (string \<rightharpoonup> string)"

record ImageData =
  Hash :: string
  Length :: int
  Extension :: string
  FullUrl :: string
  Satisfied :: bool
  Nodes :: "string list"

record Page =
  Title :: string
  RequireKey :: bool

text \<open>The library calls of the handlers: encoders, SHA-1, JSON and templates.\<close>

record 'img Lib =
  sha1_Sum :: "string \<Rightarrow> byte list"
  jpeg_Encode :: "'img \<Rightarrow> string"
  png_Encode :: "'img \<Rightarrow> string"
  json_Marshal :: "ImageData \<Rightarrow> string"
  Execute_add_template :: "Page \<Rightarrow> string"

record FileHeader =
  file_data :: string
  Header_Content_Type :: "string list"

record Request =
  Method :: string
  URL :: string
  FormValue_key :: string
  FormFile_image :: "FileHeader option"

record ResponseWriter =
  code :: nat
  Content_Type :: "string option"
  body :: string

definition http_Error :: "string \<Rightarrow> nat \<Rightarrow> ResponseWriter" where
  "http_Error msg c =
     \<lparr>code = c, Content_Type = Some ''text/plain; charset=utf-8'', body = msg @ [CHR 0x0A]\<rparr>"

definition respond :: "string \<Rightarrow> string \<Rightarrow> ResponseWriter" where
  "respond ct data = \<lparr>code = 200, Content_Type = Some ct, body = data\<rparr>"

definition mimeexts :: "string \<rightharpoonup> string" where
  "mimeexts = map_of [(''image/jpeg'', ''jpg''), (''image/gif'', ''gif''), (''image/png'', ''png'')]"

definition extmimes :: "string \<rightharpoonup> string" where
  "extmimes = map_of [(''jpg'', ''image/jpeg''), (''gif'', ''image/gif''), (''png'', ''image/png'')]"

text \<open>
  \<^verbatim>\<open>retrieveImage\<close> walks the read order. The loop variable is a copy of the node,
  so what \<open>RetrieveImage\<close> writes into it is dropped with it.
\<close>

fun retrieveImage_loop ::
  "Net \<Rightarrow> time \<Rightarrow> NodeData \<Rightarrow> NodeData list \<Rightarrow> string \<Rightarrow> string \<Rightarrow> string \<Rightarrow> error + string" where
  "retrieveImage_loop net now myself [] ahash sz extension =
     Inl (Errors_New ''not found in the cluster'')"
| "retrieveImage_loop net now myself (n # ns) ahash sz extension =
     (if UUID n = UUID myself then retrieveImage_loop net now myself ns ahash sz extension
      else
        (case fst (RetrieveImage net now n ahash sz extension) of
           Inr img \<Rightarrow> Inr img
         | Inl err \<Rightarrow> retrieveImage_loop net now myself ns ahash sz extension))"

definition retrieveImage ::
  "Net \<Rightarrow> time \<Rightarrow> Cluster \<Rightarrow> string \<Rightarrow> string \<Rightarrow> string \<Rightarrow> error + string" where
  "retrieveImage net now c ahash sz extension =
     retrieveImage_loop net now (Myself c) (ReadOrder c ahash) ahash sz extension"

text \<open>
  The tail of \<^verbatim>\<open>ServeImageHandler\<close>, from the point where the full-size file is there
  and the sized one is not: the request goes to the resize worker, and its answer decides.
\<close>

definition encode_and_cache ::
  "World \<Rightarrow> string \<Rightarrow> string \<Rightarrow> string \<Rightarrow> string \<Rightarrow> ResponseWriter outcome \<times> World" where
  "encode_and_cache w memcache_key sizedPath ct encoded =
     (let w' = write_opened w sizedPath encoded;
          img_contents = ReadFile_or_empty w' sizedPath
      in (Return (respond ct encoded), mc_Set w' memcache_key img_contents))"

definition ServeImageHandler_resize ::
  "'img Context \<Rightarrow> 'img Lib \<Rightarrow> World \<Rightarrow> string \<Rightarrow> string \<Rightarrow> string \<Rightarrow> string \<Rightarrow> string
     \<Rightarrow> ResponseWriter outcome \<times> World" where
  "ServeImageHandler_resize ctx lib w memcache_key path sizedPath sz extension =
     (let (result, files) =
            ResizeQueue ctx \<lparr>req_path = path, req_extension = extension, req_size = sz\<rparr> (fs w);
          w1 = w\<lparr>fs := files\<rparr>
      in
      if \<not> Success result then (Return (http_Error ''could not resize image'' 500), w1)
      else if Magick result then
        (let img_contents = ReadFile_or_empty w1 sizedPath in
         (Return (respond (map_index extmimes extension) img_contents),
          mc_Set w1 memcache_key img_contents))
      else
        (case OutputImage result of
           None \<Rightarrow> (Panic NilDereference, w1)
         | Some outputImage \<Rightarrow>
             (let w2 = OpenFile_create w1 sizedPath in
              if extension = [] then (Panic SliceBoundsOutOfRange, w2)
              else
                (let ct = map_index extmimes (tl extension) in
                 if extension = ''.jpg'' then
                   encode_and_cache w2 memcache_key sizedPath ct (jpeg_Encode lib outputImage)
                 else if extension = ''.gif'' then
                   encode_and_cache w2 memcache_key sizedPath ct (png_Encode lib outputImage)
                 else if extension = ''.png'' then
                   encode_and_cache w2 memcache_key sizedPath ct (png_Encode lib outputImage)
                 else (Return (respond ct []), w2)))))"

text \<open>
  \<^verbatim>\<open>ServeImageHandler\<close>. The slice \<^verbatim>\<open>extension[1:]\<close> panics on the empty string.
\<close>

definition ServeImageHandler ::
  "'img Context \<Rightarrow> Net \<Rightarrow> 'img Lib \<Rightarrow> time \<Rightarrow> World \<Rightarrow> Request \<Rightarrow> ResponseWriter outcome \<times> World" where
  "ServeImageHandler ctx net lib now w r =
     (let parts = Split (URL r) (CHR ''/'') in
      if length parts < 5 \<or> parts ! 1 \<noteq> ''image'' then (Return (http_Error ''bad request'' 404), w)
      else
        (let ahash = parts ! 2;
             sz = parts ! 3;
             filename = (if parts ! 4 = [] then ''image.jpg'' else parts ! 4);
             extension = Ext filename
         in
         if length ahash \<noteq> 40 then (Return (http_Error ''bad hash'' 404), w)
         else
           (let memcache_key = ahash @ ''/'' @ sz @ ''/image'' @ extension in
            case mc w memcache_key of
              Some item \<Rightarrow>
                (if extension = [] then (Panic SliceBoundsOutOfRange, w)
                 else (Return (respond (map_index extmimes (tl extension)) item), w))
            | None \<Rightarrow>
                (let baseDir = UploadDirectory (Cfg ctx) @ hashStringToPath ahash;
                     path = baseDir @ ''/full'' @ extension;
                     sizedPath = baseDir @ ''/'' @ sz @ extension
                 in
                 case fs w sizedPath of
                   Some contents \<Rightarrow>
                     (let w1 = mc_Set w memcache_key contents in
                      if extension = [] then (Panic SliceBoundsOutOfRange, w1)
                      else (Return (respond (map_index extmimes (tl extension)) contents), w1))
                 | None \<Rightarrow>
                     (case fs w path of
                        None \<Rightarrow>
                          (if extension = [] then (Panic SliceBoundsOutOfRange, w)
                           else
                             (case retrieveImage net now (Cluster ctx) ahash sz (tl extension) of
                                Inl err \<Rightarrow> (Return (http_Error ''not found'' 404), w)
                              | Inr img_data \<Rightarrow>
                                  (Return (respond (map_index extmimes (tl extension)) img_data),
                                   mc_Set w memcache_key img_data)))
                      | Some full \<Rightarrow>
                          ServeImageHandler_resize ctx lib w memcache_key path sizedPath
                            sz extension)))))"

text \<open>
  \<^verbatim>\<open>AddHandler\<close>. A request without the form file leaves \<^verbatim>\<open>i\<close> nil, and the deferred
  \<^verbatim>\<open>i.Close()\<close> panics; a form file without a content type panics at the index. The
  field \<^verbatim>\<open>Length\<close> is never assigned.
\<close>

definition AddHandler ::
  "'img Context \<Rightarrow> 'img Lib \<Rightarrow> World \<Rightarrow> Request \<Rightarrow> ResponseWriter outcome \<times> World" where
  "AddHandler ctx lib w r =
     (if Method r = ''POST'' then
        (if KeyRequired (Cfg ctx) \<and> \<not> ValidKey (Cfg ctx) (FormValue_key r) then
           (Return (http_Error ''invalid upload key'' 403), w)
         else
           (case FormFile_image r of
              None \<Rightarrow> (Panic NilDereference, w)
            | Some fh \<Rightarrow>
                (let h_Sum = sha1_Sum lib (file_data fh);
                     ahash = Sprintf_x h_Sum;
                     path = UploadDirectory (Cfg ctx) @ hashToPath h_Sum
                 in
                 case Header_Content_Type fh of
                   [] \<Rightarrow> (Panic IndexOutOfRange, w)
                 | mimetype # _ \<Rightarrow>
                     (let ext = map_index mimeexts mimetype;
                          fullpath = path @ ''full.'' @ ext;
                          w1 = write_opened w fullpath (file_data fh);
                          nodes = Cluster_Stash (Cluster ctx) ahash fullpath
                                    (Replication (Cfg ctx)) (MinReplication (Cfg ctx));
                          id = \<lparr>Hash = ahash, Length = 0, Extension = ext,
                                FullUrl = ''/image/'' @ ahash @ ''/full/image.'' @ ext,
                                Satisfied = (int (length nodes) \<ge> MinReplication (Cfg ctx)),
                                Nodes = nodes\<rparr>
                      in (Return \<lparr>code = 200, Content_Type = None, body = json_Marshal lib id\<rparr>,
                          w1)))))
      else
        (Return \<lparr>code = 200, Content_Type = None,
                 body = Execute_add_template lib
                          \<lparr>Title = ''upload image'', RequireKey = KeyRequired (Cfg ctx)\<rparr>\<rparr>,
         w))"

section \<open>Example inputs\<close>

text \<open>
  Concrete nodes, peers and requests on which the theorems below are run. The digest
  function \<open>sum_stub\<close> stands in for SHA-1: it gives the first twenty bytes of its input.
\<close>

definition sum_stub :: "string \<Rightarrow> byte list" where
  "sum_stub s = map (\<lambda>c. of_nat (of_char c)) (take 20 s)"

definition hash_a :: string where
  "hash_a = ''0123456789abcdef0123456789abcdef01234567''"

definition node_me :: NodeData where
  "node_me = \<lparr>Nickname = ''me'', UUID = ''uuid-me'', BaseUrl = ''me:8080'', Location = ''lab'',
              Writeable = True, LastSeen = 3, LastFailed = 0\<rparr>"

definition node_a :: NodeData where
  "node_a = \<lparr>Nickname = ''a'', UUID = ''uuid-a'', BaseUrl = ''a:8080'', Location = ''lab'',
             Writeable = True, LastSeen = 3, LastFailed = 0\<rparr>"

definition node_b :: NodeData where
  "node_b = \<lparr>Nickname = ''b'', UUID = ''uuid-b'', BaseUrl = ''b:8080'', Location = ''lab'',
             Writeable = True, LastSeen = 3, LastFailed = 0\<rparr>"

definition node_c :: NodeData where
  "node_c = \<lparr>Nickname = ''c'', UUID = ''uuid-c'', BaseUrl = ''c:8080'', Location = ''lab'',
             Writeable = True, LastSeen = 3, LastFailed = 0\<rparr>"

text \<open>
  A network in which peer \<open>a\<close> is unreachable, peer \<open>b\<close> answers every GET with
  \<^verbatim>\<open>204 No Content\<close> and every POST with \<^verbatim>\<open>400 Bad Request\<close>, and peer \<open>c\<close> answers
  \<^verbatim>\<open>200 OK\<close>.
\<close>

definition peer_of :: "string \<Rightarrow> string" where
  "peer_of url = take 8 (drop 7 url)"

definition net_abc :: Net where
  "net_abc =
     \<lparr>http_Get = (\<lambda>url.
         if peer_of url = ''b:8080/r'' then Inr \<lparr>Status = ''204 No Content'', Body = ''from b''\<rparr>
         else if peer_of url = ''c:8080/r'' then Inr \<lparr>Status = ''200 OK'', Body = ''from c''\<rparr>
         else Inl (Transport ''connection refused'')),
      http_Post = (\<lambda>url filename contents.
         if peer_of url = ''b:8080/s''
         then Inr \<lparr>Status = ''400 Bad Request'', Body = ''non-writeable node''\<rparr>
         else if peer_of url = ''c:8080/s'' then Inr \<lparr>Status = ''200 OK'', Body = ''ok''\<rparr>
         else Inl (Transport ''connection refused'')),
      CreateFormFile_err = (\<lambda>filename. None)\<rparr>"

definition world_empty :: World where
  "world_empty = \<lparr>fs = Map.empty, mc = Map.empty, OpenFile_fails = (\<lambda>p. False)\<rparr>"

definition world_upload :: World where
  "world_upload = \<lparr>fs = [''/var/up/full.png'' \<mapsto> ''PNGDATA''], mc = Map.empty,
                   OpenFile_fails = (\<lambda>p. False)\<rparr>"

definition net_noform :: Net where
  "net_noform = net_abc\<lparr>CreateFormFile_err := (\<lambda>filename. Some ''multipart: write failed'')\<rparr>"

definition cluster_abc :: Cluster where
  "cluster_abc = \<lparr>Myself = node_me, ReadOrder = (\<lambda>h. [node_a, node_me, node_b, node_c]),
                  Cluster_Stash = (\<lambda>ahash filename replication min_replication. [])\<rparr>"

definition cluster_ab :: Cluster where
  "cluster_ab = \<lparr>Myself = node_me, ReadOrder = (\<lambda>h. [node_me, node_a, node_b]),
                 Cluster_Stash = (\<lambda>ahash filename replication min_replication. [])\<rparr>"

text \<open>
  A context whose images are strings, with stand-ins for the encoders and for the JSON
  encoder (it prints the hash, the extension, \<open>satisfied\<close> and the nodes). The resize
  worker of \<open>ctx_a\<close> answers with an image to encode; the one of \<open>ctx_magick\<close> always
  answers that the sized file is written.
\<close>

definition cfg_a :: SiteConfig where
  "cfg_a = \<lparr>UploadDirectory = ''/var/up/'', Replication = 3, MinReplication = 1,
            KeyRequired = False, ValidKey = (\<lambda>key. False)\<rparr>"

definition ctx_a :: "string Context" where
  "ctx_a = \<lparr>Cluster = cluster_abc, Cfg = cfg_a,
            ResizeQueue = (\<lambda>req files.
              (\<lparr>OutputImage = Some ''IMG'', Success = True, Magick = False\<rparr>, files))\<rparr>"


definition render_stub :: "ImageData \<Rightarrow> string" where
  "render_stub d = ''hash='' @ Hash d @ '' extension='' @ Extension d @ '' satisfied=''
       @ (if Satisfied d then ''true'' else ''false'') @ '' nodes='' @ Join (Nodes d) '',''"

definition lib_a :: "string Lib" where
  "lib_a = \<lparr>sha1_Sum = sum_stub, jpeg_Encode = (\<lambda>img. ''JPEG of '' @ img),
            png_Encode = (\<lambda>img. ''PNG of '' @ img), json_Marshal = render_stub,
            Execute_add_template = (\<lambda>page. Title page)\<rparr>"





definition req_nodot :: Request where
  "req_nodot = \<lparr>Method = ''GET'', URL = ''/image/'' @ hash_a @ ''/'' @ ''full'' @ ''/'' @ ''image'',
                FormValue_key = [], FormFile_image = None\<rparr>"

definition req_png :: Request where
  "req_png = \<lparr>Method = ''GET'', URL = ''/image/'' @ hash_a @ ''/'' @ ''full'' @ ''/'' @ ''image.png'',
              FormValue_key = [], FormFile_image = None\<rparr>"


definition req_upload :: Request where
  "req_upload = \<lparr>Method = ''POST'', URL = ''/'', FormValue_key = [],
                 FormFile_image = Some \<lparr>file_data = ''PNGDATA'',
                                         Header_Content_Type = [''image/png'']\<rparr>\<rparr>"

section \<open>Properties of the hash paths\<close>

lemma hexdigit_lowercase: "d < 16 \<Longrightarrow> hexdigit d \<in> set ''0123456789abcdef''"
  unfolding hexdigit_def by (rule nth_mem) simp

lemma Sprintf_x_length: "length (Sprintf_x bs) = 2 * length bs"
  by (induction bs) (simp_all add: Sprintf_x_def)

lemma Sprintf_x_lowercase: "set (Sprintf_x bs) \<subseteq> set ''0123456789abcdef''"
proof -
  have "hexdigit (unat b div 16) \<in> set ''0123456789abcdef'' \<and>
        hexdigit (unat b mod 16) \<in> set ''0123456789abcdef''" for b :: byte
  proof -
    have "unat b < 256"
      using unsigned_less [of b] by simp
    then have "unat b div 16 < 16" and "unat b mod 16 < 16"
      by simp_all
    then show ?thesis
      using hexdigit_lowercase by blast
  qed
  then show ?thesis
    unfolding Sprintf_x_def by (induction bs) auto
qed

lemma Sprintf_02x_digits:
  "Sprintf_02x b = [hexdigit (unat b div 16), hexdigit (unat b mod 16)]"
proof -
  have lt: "unat b < 256"
    using unsigned_less [of b] by simp
  show ?thesis
  proof (cases "unat b < 16")
    case True
    then have "Sprintf_x_nat (unat b) = [hexdigit (unat b)]"
      by (simp add: Sprintf_x_nat.simps)
    with True show ?thesis
      by (simp add: Sprintf_02x_def hexdigit_def)
  next
    case False
    from lt have "unat b div 16 < 16" by simp
    then have "Sprintf_x_nat (unat b div 16) = [hexdigit (unat b div 16)]"
      by (simp add: Sprintf_x_nat.simps)
    with False have "Sprintf_x_nat (unat b) = [hexdigit (unat b div 16), hexdigit (unat b mod 16)]"
      by (subst Sprintf_x_nat.simps) simp
    then show ?thesis
      by (simp add: Sprintf_02x_def)
  qed
qed

lemma fold_append_concat: "fold (\<lambda>b buffer. buffer @ f b) h acc = acc @ concat (map f h)"
  by (induction h arbitrary: acc) simp_all

lemma hashToPath_digits:
  "hashToPath h
     = concat (map (\<lambda>b. [hexdigit (unat b div 16), hexdigit (unat b mod 16), CHR ''/'']) h)"
  by (simp add: hashToPath_def fold_append_concat Sprintf_02x_digits)

lemma is_hex_ascii: "is_hex c \<Longrightarrow> (of_char c :: nat) < 128"
  by (auto simp: is_hex_def)

lemma rune_width_ascii: "(of_char c :: nat) < 128 \<Longrightarrow> rune_width (c # cs) = 1"
  by (simp add: Let_def)

lemma rune_offsets_ascii:
  "\<forall>c \<in> set s. (of_char c :: nat) < 128 \<Longrightarrow> rune_offsets k s = [k ..< k + length s]"
proof (induction s arbitrary: k)
  case Nil
  then show ?case by (simp add: rune_offsets.simps)
next
  case (Cons c cs)
  then have w: "rune_width (c # cs) = 1"
    by (simp add: rune_width_ascii)
  have "rune_offsets k (c # cs) = k # rune_offsets (k + 1) cs"
    using w by (subst rune_offsets.simps) simp
  also have "\<dots> = k # [k + 1 ..< k + 1 + length cs]"
    using Cons by simp
  also have "\<dots> = [k ..< k + length (c # cs)]"
    by (simp add: upt_rec)
  finally show ?case .
qed

lemma fold_odd_slices:
  "fold (\<lambda>i parts. if i mod 2 \<noteq> 0 then parts @ [take 2 (drop (i - 1) h)] else parts)
        [0 ..< n] []
   = map (\<lambda>k. take 2 (drop (2 * k) h)) [0 ..< n div 2]"
proof (induction n)
  case 0
  then show ?case by simp
next
  case (Suc n)
  show ?case
  proof (cases "even n")
    case True
    then have "Suc n div 2 = n div 2" by presburger
    with True Suc show ?thesis by (simp add: even_iff_mod_2_eq_zero)
  next
    case False
    then have d: "Suc n div 2 = Suc (n div 2)" and m: "n - 1 = 2 * (n div 2)"
      by presburger+
    from False have "n mod 2 \<noteq> 0" by presburger
    with Suc d m show ?thesis by simp
  qed
qed

lemma hashStringToPath_ascii:
  assumes "\<forall>c \<in> set h. (of_char c :: nat) < 128"
  shows "hashStringToPath h = Join (map (\<lambda>k. take 2 (drop (2 * k) h)) [0 ..< length h div 2]) ''/''"
  using rune_offsets_ascii [OF assms, of 0] fold_odd_slices [of h "length h"]
  by (simp add: hashStringToPath_def)

text \<open>
  C7. For every string of 40 hexadecimal characters, the path that \<open>hashStringToPath\<close>
  derives is the 20 consecutive two-character segments of the string, joined by the path
  separator.
\<close>

theorem hashStringToPath_segments:
  assumes "length h = 40" and "list_all is_hex h"
  shows "hashStringToPath h = Join (map (\<lambda>k. [h ! (2 * k), h ! (2 * k + 1)]) [0 ..< 20]) ''/''"
proof -
  have ascii: "\<forall>c \<in> set h. (of_char c :: nat) < 128"
    using assms(2) is_hex_ascii by (auto simp: list_all_iff)
  have seg: "take 2 (drop (2 * k) h) = [h ! (2 * k), h ! (2 * k + 1)]" if "k < 20" for k
  proof -
    from that assms(1) have "2 * k + 1 < length h" by simp
    then show ?thesis
      by (simp add: take_Suc_conv_app_nth numeral_2_eq_2)
  qed
  have "map (\<lambda>k. take 2 (drop (2 * k) h)) [0 ..< 20]
        = map (\<lambda>k. [h ! (2 * k), h ! (2 * k + 1)]) [0 ..< 20]"
    by (rule map_cong) (auto simp: seg)
  with hashStringToPath_ascii [OF ascii] assms(1) show ?thesis by simp
qed

theorem hashStringToPath_segments_witness:
  "length hash_a = 40 \<and> list_all is_hex hash_a \<and>
   hashStringToPath hash_a = ''01/23/45/67/89/ab/cd/ef/01/23/45/67/89/ab/cd/ef/01/23/45/67''"
proof -
  have l: "length hash_a = 40"
    by (simp add: hash_a_def)
  have x: "list_all is_hex hash_a"
    by (simp add: hash_a_def is_hex_def)
  have "Join (map (\<lambda>k. [hash_a ! (2 * k), hash_a ! (2 * k + 1)]) [0 ..< 20]) ''/''
        = ''01/23/45/67/89/ab/cd/ef/01/23/45/67/89/ab/cd/ef/01/23/45/67''"
    by (simp add: hash_a_def upt_rec)
  with hashStringToPath_segments [OF l x] l x show ?thesis
    by simp
qed

section \<open>Properties of the nodes\<close>

lemma fold_update_upt:
  "n \<le> length ks \<Longrightarrow> fold (\<lambda>i keys. keys[i := f i]) [0 ..< n] ks = map f [0 ..< n] @ drop n ks"
proof (induction n)
  case 0
  then show ?case by simp
next
  case (Suc n)
  then have "n < length ks" by simp
  then have "(map f [0 ..< n] @ drop n ks)[n := f n] = map f [0 ..< n] @ f n # drop (Suc n) ks"
    by (simp add: list_update_append Cons_nth_drop_Suc [symmetric])
  with Suc show ?case by simp
qed

lemma HashKeys_map:
  "HashKeys sha1 n = map (\<lambda>i. Sprintf_x (sha1 (UUID n @ Sprintf_d i))) [0 ..< 16]"
  using fold_update_upt [of 16 "replicate 16 []" "\<lambda>i. Sprintf_x (sha1 (UUID n @ Sprintf_d i))"]
  by (simp add: HashKeys_def REPLICAS_def)

text \<open>
  C3. \<open>HashKeys\<close> returns exactly 16 keys, and for every \<open>i\<close> from 0 to 15 the key at
  index \<open>i\<close> is the lowercase hexadecimal encoding of the SHA-1 of the node's UUID followed
  by the decimal representation of \<open>i\<close>.
\<close>

theorem HashKeys_ring_keys:
  "length (HashKeys sha1 n) = 16 \<and>
   (\<forall>i < 16. HashKeys sha1 n ! i = Sprintf_x (sha1 (UUID n @ Sprintf_d i)))"
  by (simp add: HashKeys_map)

theorem HashKeys_ring_keys_witness:
  "(15::nat) < 16 \<and> length (HashKeys sum_stub node_a) = 16 \<and>
   HashKeys sum_stub node_a ! 15 = ''757569642d613135''"
proof -
  have d: "Sprintf_d 15 = ''15''"
    by (simp add: Sprintf_d.simps decdigit_def)
  have "Sprintf_x (sum_stub (UUID node_a @ ''15'')) = ''757569642d613135''"
    by (simp add: Sprintf_x_def sum_stub_def node_a_def hexdigit_def)
  with HashKeys_ring_keys [of sum_stub node_a] d show ?thesis
    by simp
qed

text \<open>
  C5, as the code has it. On a transport error \<open>RetrieveImage\<close> sets \<open>LastFailed\<close> to now
  and returns the error. On every HTTP response it sets \<open>LastSeen\<close> to now; it returns the
  body when the status line is exactly \<^verbatim>\<open>200 OK\<close> and the error \<^verbatim>\<open>404, probably\<close> on
  every other status line.
\<close>

theorem RetrieveImage_outcomes:
  "(http_Get net (retrieveUrl n hash sz extension) = Inl err \<longrightarrow>
      RetrieveImage net now n hash sz extension = (Inl err, n\<lparr>LastFailed := now\<rparr>)) \<and>
   (http_Get net (retrieveUrl n hash sz extension) = Inr resp \<and> Status resp = ''200 OK'' \<longrightarrow>
      RetrieveImage net now n hash sz extension = (Inr (Body resp), n\<lparr>LastSeen := now\<rparr>)) \<and>
   (http_Get net (retrieveUrl n hash sz extension) = Inr resp \<and> Status resp \<noteq> ''200 OK'' \<longrightarrow>
      RetrieveImage net now n hash sz extension
        = (Inl (Errors_New ''404, probably''), n\<lparr>LastSeen := now\<rparr>))"
  by (simp add: RetrieveImage_def)

lemma peer_of_retrieveUrl:
  "peer_of (retrieveUrl node_a h s e) = ''a:8080/r''"
  "peer_of (retrieveUrl node_b h s e) = ''b:8080/r''"
  "peer_of (retrieveUrl node_c h s e) = ''c:8080/r''"
  by (simp_all add: peer_of_def retrieveUrl_def node_a_def node_b_def node_c_def)

lemma peer_of_stashUrl:
  "peer_of (stashUrl node_a) = ''a:8080/s''"
  "peer_of (stashUrl node_b) = ''b:8080/s''"
  "peer_of (stashUrl node_c) = ''c:8080/s''"
  by (simp_all add: peer_of_def stashUrl_def node_a_def node_b_def node_c_def)

lemma net_abc_Get:
  "http_Get net_abc (retrieveUrl node_a h s e) = Inl (Transport ''connection refused'')"
  "http_Get net_abc (retrieveUrl node_b h s e) = Inr \<lparr>Status = ''204 No Content'', Body = ''from b''\<rparr>"
  "http_Get net_abc (retrieveUrl node_c h s e) = Inr \<lparr>Status = ''200 OK'', Body = ''from c''\<rparr>"
  by (simp_all add: net_abc_def peer_of_retrieveUrl)

lemma net_abc_Post:
  "http_Post net_abc (stashUrl node_a) f d = Inl (Transport ''connection refused'')"
  "http_Post net_abc (stashUrl node_b) f d
     = Inr \<lparr>Status = ''400 Bad Request'', Body = ''non-writeable node''\<rparr>"
  "http_Post net_abc (stashUrl node_c) f d = Inr \<lparr>Status = ''200 OK'', Body = ''ok''\<rparr>"
  by (simp_all add: net_abc_def peer_of_stashUrl)

theorem RetrieveImage_outcomes_witness:
  "RetrieveImage net_abc 7 node_a hash_a ''full'' ''png''
     = (Inl (Transport ''connection refused''), node_a\<lparr>LastFailed := 7\<rparr>) \<and>
   RetrieveImage net_abc 7 node_c hash_a ''full'' ''png''
     = (Inr ''from c'', node_c\<lparr>LastSeen := 7\<rparr>) \<and>
   RetrieveImage net_abc 7 node_b hash_a ''full'' ''png''
     = (Inl (Errors_New ''404, probably''), node_b\<lparr>LastSeen := 7\<rparr>)"
  using RetrieveImage_outcomes [where net = net_abc and n = node_a and hash = hash_a
          and sz = "''full''" and extension = "''png''" and now = 7
          and err = "Transport ''connection refused''"]
        RetrieveImage_outcomes [where net = net_abc and n = node_c and hash = hash_a
          and sz = "''full''" and extension = "''png''" and now = 7
          and resp = "\<lparr>Status = ''200 OK'', Body = ''from c''\<rparr>"]
        RetrieveImage_outcomes [where net = net_abc and n = node_b and hash = hash_a
          and sz = "''full''" and extension = "''png''" and now = 7
          and resp = "\<lparr>Status = ''204 No Content'', Body = ''from b''\<rparr>"]
  by (simp add: net_abc_Get)

text \<open>
  The claim C5 as the specification states it fails on a 2xx status other than
  \<^verbatim>\<open>200 OK\<close>: peer \<open>b\<close> answers \<^verbatim>\<open>204 No Content\<close>, and the call returns the error, not
  the body.
\<close>

theorem RetrieveImage_2xx_counterexample:
  "http_Get net_abc (retrieveUrl node_b hash_a ''full'' ''png'')
     = Inr \<lparr>Status = ''204 No Content'', Body = ''from b''\<rparr> \<and>
   fst (RetrieveImage net_abc 7 node_b hash_a ''full'' ''png'') \<noteq> Inr ''from b'' \<and>
   fst (RetrieveImage net_abc 7 node_b hash_a ''full'' ''png'') = Inl (Errors_New ''404, probably'')"
  by (simp add: RetrieveImage_def net_abc_Get)

text \<open>
  C2, as the code has it. When the POST fails at the transport level, \<open>Stash\<close> sets
  \<open>LastFailed\<close> to now, clears \<open>Writeable\<close> and returns false. When the POST completes, it
  sets \<open>LastSeen\<close> to now and returns true. When the form file cannot be created or the
  local file cannot be opened, \<open>postFile\<close> panics: \<open>Stash\<close> returns nothing and the node
  is left as it was.
\<close>

theorem Stash_outcomes:
  "(CreateFormFile_err net filename = None \<and> fs w filename = Some contents \<and>
    http_Post net (stashUrl n) filename contents = Inl err \<longrightarrow>
      Stash net w now n filename = (Return False, n\<lparr>LastFailed := now, Writeable := False\<rparr>)) \<and>
   (CreateFormFile_err net filename = None \<and> fs w filename = Some contents \<and>
    http_Post net (stashUrl n) filename contents = Inr resp \<longrightarrow>
      Stash net w now n filename = (Return True, n\<lparr>LastSeen := now\<rparr>)) \<and>
   (CreateFormFile_err net filename = None \<and> fs w filename = None \<longrightarrow>
      Stash net w now n filename
        = (Panic (Explicit (''open '' @ filename @ '': no such file or directory'')), n)) \<and>
   (CreateFormFile_err net filename = Some msg \<longrightarrow>
      Stash net w now n filename = (Panic (Explicit msg), n))"
  by (simp add: Stash_def postFile_def)

theorem Stash_outcomes_witness:
  "Stash net_abc world_upload 7 node_a ''/var/up/full.png''
     = (Return False, node_a\<lparr>LastFailed := 7, Writeable := False\<rparr>) \<and>
   Stash net_abc world_upload 7 node_c ''/var/up/full.png''
     = (Return True, node_c\<lparr>LastSeen := 7\<rparr>) \<and>
   Stash net_abc world_empty 7 node_c ''/var/up/full.png''
     = (Panic (Explicit ''open /var/up/full.png: no such file or directory''), node_c) \<and>
   Stash net_noform world_upload 7 node_c ''/var/up/full.png''
     = (Panic (Explicit ''multipart: write failed''), node_c)"
proof -
  have c: "CreateFormFile_err net_abc ''/var/up/full.png'' = None"
    by (simp add: net_abc_def)
  have c': "CreateFormFile_err net_noform ''/var/up/full.png'' = Some ''multipart: write failed''"
    by (simp add: net_noform_def)
  have f: "fs world_upload ''/var/up/full.png'' = Some ''PNGDATA''"
    by (simp add: world_upload_def)
  have f': "fs world_empty ''/var/up/full.png'' = None"
    by (simp add: world_empty_def)
  show ?thesis
    using Stash_outcomes [where net = net_abc and filename = "''/var/up/full.png''"
            and w = world_upload and contents = "''PNGDATA''" and n = node_a and now = 7
            and err = "Transport ''connection refused''"]
          Stash_outcomes [where net = net_abc and filename = "''/var/up/full.png''"
            and w = world_upload and contents = "''PNGDATA''" and n = node_c and now = 7
            and resp = "\<lparr>Status = ''200 OK'', Body = ''ok''\<rparr>"]
          Stash_outcomes [where net = net_abc and filename = "''/var/up/full.png''"
            and w = world_empty and n = node_c and now = 7]
          Stash_outcomes [where net = net_noform and filename = "''/var/up/full.png''"
            and w = world_upload and n = node_c and now = 7
            and msg = "''multipart: write failed''"]
    by (simp add: net_abc_Post c c' f f')
qed

text \<open>
  The claim C2 as the specification states it fails when the error is the local file not
  opening: the call panics, returns no boolean, and the node keeps its \<open>LastFailed\<close> and
  stays writeable.
\<close>

theorem Stash_panic_counterexample:
  "fs world_empty ''/var/up/full.png'' = None \<and>
   fst (Stash net_abc world_empty 7 node_a ''/var/up/full.png'')
     = Panic (Explicit ''open /var/up/full.png: no such file or directory'') \<and>
   LastFailed (snd (Stash net_abc world_empty 7 node_a ''/var/up/full.png'')) \<noteq> 7 \<and>
   Writeable (snd (Stash net_abc world_empty 7 node_a ''/var/up/full.png''))"
  by (simp add: Stash_def postFile_def net_abc_def world_empty_def node_a_def)

text \<open>
  C9. Whenever the POST completes at the transport level, \<open>Stash\<close> returns true and sets
  \<open>LastSeen\<close> to now, whatever the status of the response: the response is not looked at.
\<close>

theorem Stash_ignores_status:
  assumes "CreateFormFile_err net filename = None"
    and "fs w filename = Some contents"
    and "http_Post net (stashUrl n) filename contents = Inr resp"
  shows "Stash net w now n filename = (Return True, n\<lparr>LastSeen := now\<rparr>)"
  using assms by (simp add: Stash_def postFile_def)

theorem Stash_ignores_status_witness:
  "http_Post net_abc (stashUrl node_b) ''/var/up/full.png'' ''PNGDATA''
     = Inr \<lparr>Status = ''400 Bad Request'', Body = ''non-writeable node''\<rparr> \<and>
   Stash net_abc world_upload 7 node_b ''/var/up/full.png''
     = (Return True, node_b\<lparr>LastSeen := 7\<rparr>)"
proof -
  have c: "CreateFormFile_err net_abc ''/var/up/full.png'' = None"
    by (simp add: net_abc_def)
  have f: "fs world_upload ''/var/up/full.png'' = Some ''PNGDATA''"
    by (simp add: world_upload_def)
  have p: "http_Post net_abc (stashUrl node_b) ''/var/up/full.png'' ''PNGDATA''
             = Inr \<lparr>Status = ''400 Bad Request'', Body = ''non-writeable node''\<rparr>"
    by (simp add: net_abc_Post)
  from Stash_ignores_status [OF c f p, of 7] p show ?thesis
    by simp
qed

section \<open>Properties of the cluster retrieve\<close>

lemma retrieveImage_loop_find:
  "retrieveImage_loop net now myself ns ahash sz extension =
     (case find (\<lambda>n. UUID n \<noteq> UUID myself \<and>
                     \<not> isl (fst (RetrieveImage net now n ahash sz extension))) ns of
        None \<Rightarrow> Inl (Errors_New ''not found in the cluster'')
      | Some n \<Rightarrow> Inr (projr (fst (RetrieveImage net now n ahash sz extension))))"
proof (induction ns)
  case Nil
  then show ?case by simp
next
  case (Cons n ns)
  show ?case
  proof (cases "UUID n = UUID myself")
    case True
    with Cons show ?thesis by simp
  next
    case False
    with Cons show ?thesis
      by (cases "fst (RetrieveImage net now n ahash sz extension)") simp_all
  qed
qed

lemma retrieveImage_loop_not_found:
  "retrieveImage_loop net now myself ns ahash sz extension
     = Inl (Errors_New ''not found in the cluster'') \<longleftrightarrow>
   (\<forall>n \<in> set ns. UUID n \<noteq> UUID myself \<longrightarrow>
      isl (fst (RetrieveImage net now n ahash sz extension)))"
proof (induction ns)
  case Nil
  then show ?case by simp
next
  case (Cons n ns)
  show ?case
  proof (cases "UUID n = UUID myself")
    case True
    with Cons show ?thesis by simp
  next
    case False
    with Cons show ?thesis
      by (cases "fst (RetrieveImage net now n ahash sz extension)") simp_all
  qed
qed

text \<open>
  C4. The cluster retrieve goes through the read order of the hash, passes over every
  node whose UUID is the local node's, and returns the bytes of the first retrieve from a
  peer that succeeds; it returns the not-found error if and only if the retrieve from every
  peer it asks fails.
\<close>

theorem retrieveImage_first_success:
  "retrieveImage net now c ahash sz extension =
     (case find (\<lambda>n. UUID n \<noteq> UUID (Myself c) \<and>
                     \<not> isl (fst (RetrieveImage net now n ahash sz extension)))
                (ReadOrder c ahash) of
        None \<Rightarrow> Inl (Errors_New ''not found in the cluster'')
      | Some n \<Rightarrow> Inr (projr (fst (RetrieveImage net now n ahash sz extension)))) \<and>
   (retrieveImage net now c ahash sz extension = Inl (Errors_New ''not found in the cluster'') \<longleftrightarrow>
      (\<forall>n \<in> set (ReadOrder c ahash). UUID n \<noteq> UUID (Myself c) \<longrightarrow>
         isl (fst (RetrieveImage net now n ahash sz extension))))"
  unfolding retrieveImage_def
  using retrieveImage_loop_find retrieveImage_loop_not_found by blast

lemma RetrieveImage_abc:
  "fst (RetrieveImage net_abc now node_a h s e) = Inl (Transport ''connection refused'')"
  "fst (RetrieveImage net_abc now node_b h s e) = Inl (Errors_New ''404, probably'')"
  "fst (RetrieveImage net_abc now node_c h s e) = Inr ''from c''"
  by (simp_all add: RetrieveImage_def net_abc_Get)

lemma UUID_examples:
  "UUID node_me = ''uuid-me''" "UUID node_a = ''uuid-a''" "UUID node_b = ''uuid-b''"
  "UUID node_c = ''uuid-c''"
  by (simp_all add: node_me_def node_a_def node_b_def node_c_def)

theorem retrieveImage_first_success_witness:
  "retrieveImage net_abc 7 cluster_abc hash_a ''full'' ''png'' = Inr ''from c'' \<and>
   retrieveImage net_abc 7 cluster_ab hash_a ''full'' ''png''
     = Inl (Errors_New ''not found in the cluster'')"
  using retrieveImage_first_success [of net_abc 7 cluster_abc hash_a "''full''" "''png''"]
        retrieveImage_first_success [of net_abc 7 cluster_ab hash_a "''full''" "''png''"]
  by (simp add: cluster_abc_def cluster_ab_def RetrieveImage_abc UUID_examples)

section \<open>Properties of the handlers\<close>

lemma Split_not_Nil: "Split s sep \<noteq> []"
  by (induction s) auto

lemma Split_no_sep: "sep \<notin> set a \<Longrightarrow> Split a sep = [a]"
  by (induction a) auto

lemma Split_append: "sep \<notin> set a \<Longrightarrow> Split (a @ sep # rest) sep = a # Split rest sep"
  by (induction a) auto

lemma Split_image_url:
  assumes "CHR ''/'' \<notin> set ahash" and "CHR ''/'' \<notin> set sz" and "CHR ''/'' \<notin> set filename"
  shows "Split (''/image/'' @ ahash @ ''/'' @ sz @ ''/'' @ filename) (CHR ''/'')
           = [[], ''image'', ahash, sz, filename]"
proof -
  have "Split (ahash @ CHR ''/'' # sz @ CHR ''/'' # filename) (CHR ''/'') = [ahash, sz, filename]"
    using assms by (simp add: Split_append Split_no_sep)
  then show ?thesis by simp
qed

lemma ext_scan_no_dot: "CHR ''.'' \<notin> set b \<Longrightarrow> ext_scan b suffix = []"
  by (induction b arbitrary: suffix) auto

lemma Ext_no_dot: "CHR ''.'' \<notin> set filename \<Longrightarrow> Ext filename = []"
  by (simp add: Ext_def ext_scan_no_dot)

text \<open>
  C10. There are GET requests to \<^verbatim>\<open>/image/<hash>/<size>/<filename>\<close> on which the
  handler panics: whenever the file name is not empty and has no dot, the extension is the
  empty string; if the full-size file of that name is not on this node, every way through
  the handler reaches the slice \<^verbatim>\<open>extension[1:]\<close>, which is out of bounds.
\<close>

theorem ServeImageHandler_no_dot_panics:
  assumes "URL r = ''/image/'' @ ahash @ ''/'' @ sz @ ''/'' @ filename"
    and "CHR ''/'' \<notin> set ahash" and "CHR ''/'' \<notin> set sz" and "CHR ''/'' \<notin> set filename"
    and "length ahash = 40"
    and "filename \<noteq> []" and "CHR ''.'' \<notin> set filename"
    and "fs w (UploadDirectory (Cfg ctx) @ hashStringToPath ahash @ ''/full'') = None"
  shows "Ext filename = [] \<and>
         fst (ServeImageHandler ctx net lib now w r) = Panic SliceBoundsOutOfRange"
proof -
  have e: "Ext filename = []"
    using assms(7) by (rule Ext_no_dot)
  have p: "Split (URL r) (CHR ''/'') = [[], ''image'', ahash, sz, filename]"
    using assms(1) Split_image_url [OF assms(2-4)] by simp
  have "fst (ServeImageHandler ctx net lib now w r) = Panic SliceBoundsOutOfRange"
    using assms(5,6,8) e
    by (simp add: ServeImageHandler_def p Let_def split: option.split)
  with e show ?thesis by simp
qed

lemma hash_a_facts:
  "CHR ''/'' \<notin> set hash_a" "length hash_a = 40"
  by (simp_all add: hash_a_def)

theorem ServeImageHandler_no_dot_panics_witness:
  "URL req_nodot = ''/image/'' @ hash_a @ ''/'' @ ''full'' @ ''/'' @ ''image'' \<and>
   Ext ''image'' = [] \<and>
   fst (ServeImageHandler ctx_a net_abc lib_a 7 world_empty req_nodot)
     = Panic SliceBoundsOutOfRange"
proof -
  have u: "URL req_nodot = ''/image/'' @ hash_a @ ''/'' @ ''full'' @ ''/'' @ ''image''"
    by (simp add: req_nodot_def)
  have f: "fs world_empty (UploadDirectory (Cfg ctx_a) @ hashStringToPath hash_a @ ''/full'') = None"
    by (simp add: world_empty_def)
  from ServeImageHandler_no_dot_panics [OF u hash_a_facts(1) _ _ hash_a_facts(2) _ _ f,
         of net_abc lib_a 7] u
  show ?thesis by simp
qed

lemma extmimes_table:
  "map_index extmimes ''jpg'' = ''image/jpeg''"
  "map_index extmimes ''png'' = ''image/png''"
  "map_index extmimes ''gif'' = ''image/gif''"
  by (simp_all add: map_index_def extmimes_def)

lemma retrieveImage_abc_example:
  "retrieveImage net_abc now cluster_abc h s e = Inr ''from c''"
  by (simp add: retrieveImage_def cluster_abc_def RetrieveImage_abc UUID_examples)

text \<open>
  C8. When the memcache has no entry, neither the sized nor the full-size file is on this
  node, and the cluster retrieve brings the image from a peer, the handler answers with
  those bytes and writes no file: the file system after the request is the one before, so
  the full-size path and the sized path of the hash are still absent.
\<close>

theorem ServeImageHandler_read_through:
  assumes "URL r = ''/image/'' @ ahash @ ''/'' @ sz @ ''/'' @ filename"
    and "CHR ''/'' \<notin> set ahash" and "CHR ''/'' \<notin> set sz" and "CHR ''/'' \<notin> set filename"
    and "length ahash = 40"
    and "Ext (if filename = [] then ''image.jpg'' else filename) = CHR ''.'' # e"
    and "mc w (ahash @ ''/'' @ sz @ ''/image.'' @ e) = None"
    and "fs w (UploadDirectory (Cfg ctx) @ hashStringToPath ahash @ ''/'' @ sz @ ''.'' @ e) = None"
    and "fs w (UploadDirectory (Cfg ctx) @ hashStringToPath ahash @ ''/full.'' @ e) = None"
    and "retrieveImage net now (Cluster ctx) ahash sz e = Inr img_data"
  shows "fst (ServeImageHandler ctx net lib now w r)
           = Return (respond (map_index extmimes e) img_data) \<and>
         fs (snd (ServeImageHandler ctx net lib now w r)) = fs w \<and>
         fs (snd (ServeImageHandler ctx net lib now w r))
            (UploadDirectory (Cfg ctx) @ hashStringToPath ahash @ ''/full.'' @ e) = None \<and>
         fs (snd (ServeImageHandler ctx net lib now w r))
            (UploadDirectory (Cfg ctx) @ hashStringToPath ahash @ ''/'' @ sz @ ''.'' @ e) = None"
proof -
  have p: "Split (URL r) (CHR ''/'') = [[], ''image'', ahash, sz, filename]"
    using assms(1) Split_image_url [OF assms(2-4)] by simp
  have run: "ServeImageHandler ctx net lib now w r
               = (Return (respond (map_index extmimes e) img_data),
                  mc_Set w (ahash @ ''/'' @ sz @ ''/image.'' @ e) img_data)"
  proof (cases "filename = []")
    case True
    with assms(6) have "Ext ''image.jpg'' = CHR ''.'' # e" by simp
    with True assms(5,7-10) show ?thesis
      by (simp add: ServeImageHandler_def p Let_def)
  next
    case False
    with assms(6) have "Ext filename = CHR ''.'' # e" by simp
    with False assms(5,7-10) show ?thesis
      by (simp add: ServeImageHandler_def p Let_def)
  qed
  show ?thesis
    using assms(8,9) by (simp add: run mc_Set_def)
qed

lemma Ext_examples:
  "Ext ''image.png'' = ''.png''" "Ext ''image.gif'' = ''.gif''" "Ext ''image'' = []"
  by (simp_all add: Ext_def)

theorem ServeImageHandler_read_through_witness:
  "retrieveImage net_abc 7 (Cluster ctx_a) hash_a ''full'' ''png'' = Inr ''from c'' \<and>
   fst (ServeImageHandler ctx_a net_abc lib_a 7 world_empty req_png)
     = Return (respond ''image/png'' ''from c'') \<and>
   fs (snd (ServeImageHandler ctx_a net_abc lib_a 7 world_empty req_png)) = fs world_empty \<and>
   fs (snd (ServeImageHandler ctx_a net_abc lib_a 7 world_empty req_png))
      (UploadDirectory (Cfg ctx_a) @ hashStringToPath hash_a @ ''/full.png'') = None"
proof -
  have u: "URL req_png = ''/image/'' @ hash_a @ ''/'' @ ''full'' @ ''/'' @ ''image.png''"
    by (simp add: req_png_def)
  have x: "Ext (if ''image.png'' = [] then ''image.jpg'' else ''image.png'') = CHR ''.'' # ''png''"
    by (simp add: Ext_examples)
  have m: "mc world_empty (hash_a @ ''/'' @ ''full'' @ ''/image.'' @ ''png'') = None"
    by (simp add: world_empty_def)
  have f: "fs world_empty q = None" for q
    by (simp add: world_empty_def)
  have g: "retrieveImage net_abc 7 (Cluster ctx_a) hash_a ''full'' ''png'' = Inr ''from c''"
    by (simp add: ctx_a_def retrieveImage_abc_example)
  from ServeImageHandler_read_through [OF u hash_a_facts(1) _ _ hash_a_facts(2) x m f f g,
         of lib_a] g
  show ?thesis by (simp add: extmimes_table f)
qed









section \<open>Properties of the upload\<close>

text \<open>
  C1, as the code has it. An upload that passes the key check and carries the form file
  with a content type is answered with the JSON encoding of an \<open>ImageData\<close> whose field
  \<open>Nodes\<close> is the list the cluster's stash returned and whose field \<open>Satisfied\<close> is true
  if and only if the length of that list is at least \<open>MinReplication\<close>: the local copy is
  not added to the count. With an empty list and \<open>MinReplication\<close> 1 the field is false.
\<close>

theorem AddHandler_satisfied:
  assumes "Method r = ''POST''"
    and "\<not> KeyRequired (Cfg ctx) \<or> ValidKey (Cfg ctx) (FormValue_key r)"
    and "FormFile_image r = Some fh"
    and "Header_Content_Type fh = mimetype # others"
    and "ahash = Sprintf_x (sha1_Sum lib (file_data fh))"
    and "ext = map_index mimeexts mimetype"
    and "nodes = Cluster_Stash (Cluster ctx) ahash
                   (UploadDirectory (Cfg ctx) @ hashToPath (sha1_Sum lib (file_data fh))
                      @ ''full.'' @ ext)
                   (Replication (Cfg ctx)) (MinReplication (Cfg ctx))"
  shows "fst (AddHandler ctx lib w r)
           = Return \<lparr>code = 200, Content_Type = None,
                     body = json_Marshal lib
                       \<lparr>Hash = ahash, Length = 0, Extension = ext,
                        FullUrl = ''/image/'' @ ahash @ ''/full/image.'' @ ext,
                        Satisfied = (MinReplication (Cfg ctx) \<le> int (length nodes)),
                        Nodes = nodes\<rparr>\<rparr> \<and>
         (nodes = [] \<and> MinReplication (Cfg ctx) = 1 \<longrightarrow>
            fst (AddHandler ctx lib w r)
              = Return \<lparr>code = 200, Content_Type = None,
                        body = json_Marshal lib
                          \<lparr>Hash = ahash, Length = 0, Extension = ext,
                           FullUrl = ''/image/'' @ ahash @ ''/full/image.'' @ ext,
                           Satisfied = False, Nodes = []\<rparr>\<rparr>)"
proof -
  have run: "fst (AddHandler ctx lib w r)
           = Return \<lparr>code = 200, Content_Type = None,
                     body = json_Marshal lib
                       \<lparr>Hash = ahash, Length = 0, Extension = ext,
                        FullUrl = ''/image/'' @ ahash @ ''/full/image.'' @ ext,
                        Satisfied = (MinReplication (Cfg ctx) \<le> int (length nodes)),
                        Nodes = nodes\<rparr>\<rparr>"
    using assms(1-4) unfolding assms(5-7)
    by (auto simp: AddHandler_def Let_def)
  show ?thesis
    using run by auto
qed

lemma upload_example_facts:
  "Sprintf_x (sha1_Sum lib_a ''PNGDATA'') = ''504e4744415441''"
  "map_index mimeexts ''image/png'' = ''png''"
  by (simp_all add: lib_a_def sum_stub_def Sprintf_x_def hexdigit_def map_index_def mimeexts_def)

lemma upload_example_stash:
  "Cluster_Stash (Cluster ctx_a) h p k m = []" "MinReplication (Cfg ctx_a) = 1"
  "KeyRequired (Cfg ctx_a) = False"
  by (simp_all add: ctx_a_def cluster_abc_def cfg_a_def)

lemma upload_example_request:
  "Method req_upload = ''POST''"
  "FormFile_image req_upload
     = Some \<lparr>file_data = ''PNGDATA'', Header_Content_Type = [''image/png'']\<rparr>"
  by (simp_all add: req_upload_def)

lemma render_stub_example:
  "json_Marshal lib_a \<lparr>Hash = ''504e4744415441'', Length = 0, Extension = ''png'',
       FullUrl = u, Satisfied = False, Nodes = []\<rparr>
     = ''hash=504e4744415441 extension=png satisfied=false nodes=''"
  by (simp add: lib_a_def render_stub_def)

theorem AddHandler_satisfied_witness:
  "fst (AddHandler ctx_a lib_a world_empty req_upload)
     = Return \<lparr>code = 200, Content_Type = None,
               body = ''hash=504e4744415441 extension=png satisfied=false nodes=''\<rparr>"
proof -
  have k: "\<not> KeyRequired (Cfg ctx_a) \<or> ValidKey (Cfg ctx_a) (FormValue_key req_upload)"
    by (simp add: upload_example_stash)
  have h: "Header_Content_Type \<lparr>file_data = ''PNGDATA'', Header_Content_Type = [''image/png'']\<rparr>
             = ''image/png'' # []"
    by simp
  from AddHandler_satisfied [OF upload_example_request(1) k upload_example_request(2) h refl refl refl,
         of lib_a world_empty]
  show ?thesis
    by (simp add: upload_example_facts upload_example_stash render_stub_example)
qed

text \<open>
  The claim C1 as the specification states it fails on a single node: with
  \<open>MinReplication\<close> 1 and no successful remote stash the local copy alone would satisfy
  it, and the handler answers \<open>satisfied\<close> false.
\<close>

theorem AddHandler_single_node_counterexample:
  "MinReplication (Cfg ctx_a) = 1 \<and>
   Cluster_Stash (Cluster ctx_a) ''504e4744415441'' ''/var/up/50/4e/47/44/41/54/41/full.png'' 3 1 = [] \<and>
   fst (AddHandler ctx_a lib_a world_empty req_upload)
     = Return \<lparr>code = 200, Content_Type = None,
               body = json_Marshal lib_a
                 \<lparr>Hash = ''504e4744415441'', Length = 0, Extension = ''png'',
                  FullUrl = ''/image/504e4744415441/full/image.png'',
                  Satisfied = False, Nodes = []\<rparr>\<rparr> \<and>
   json_Marshal lib_a
     \<lparr>Hash = ''504e4744415441'', Length = 0, Extension = ''png'',
      FullUrl = ''/image/504e4744415441/full/image.png'', Satisfied = False, Nodes = []\<rparr>
     = ''hash=504e4744415441 extension=png satisfied=false nodes=''"
  by (simp add: AddHandler_def Let_def upload_example_request upload_example_facts
        upload_example_stash render_stub_example)

end
